theory Spec2Isabelle
  imports Main "HOL-Library.Sublist"
begin

section \<open>The onedocker runner: data model\<close>

text \<open>
  The module \<open>onedocker/onedocker_runner.py\<close> is embedded function by function.
  Python strings are \<^typ>\<open>string\<close>, Python integers are \<^typ>\<open>int\<close>, an
  \<open>Optional[str]\<close> is a \<^typ>\<open>string option\<close>. Every call that leaves the module
  (logger, S3 client, shell, process handle, signal table, network counters) is recorded
  as an \<open>event\<close>, in program order; what such a call answers is read from a \<open>world\<close>.
  A function of the module returns the events it caused together with its result.
\<close>

datatype exn =
    IndexError
  | TimeoutExpired
  | InterruptedError
  | ExternalError string

datatype event =
    Log string
  | S3Copy string string string
  | ShellRun string
  | SignalInstallSIGINT
  | Popen string
  | NetIoCounters
  | Communicate "int option"
  | ProcTerminate
  | KillpgSIGTERM
  | ProcWait
  | PopenExit

datatype outcome =
    Returns
  | SysExit int
  | Raises exn
  | Blocks

text \<open>
  How the wait on the child ends is decided outside the program: the child exits in time,
  a SIGINT reaches the launcher while it waits (the handler of the module raises
  \<open>InterruptedError\<close>), or the child is still running when a timeout, if there is one,
  runs out.
\<close>

datatype wait_event = ChildExits | Sigint | Overruns

record net_counters =
  bytes_sent :: int
  bytes_recv :: int

text \<open>
  The world of one invocation. \<open>s3_region\<close> and \<open>s3_copy\<close> stand for
  \<open>S3Path(...).region\<close> and \<open>S3StorageService(region).copy(src, dst)\<close>, whose code is
  not part of the module: each may raise. \<open>shell_returncode\<close> is the return code of a
  command given to \<open>subprocess.run\<close>; \<open>child_returncode\<close> is what \<open>proc.wait()\<close>
  returns once the child has exited.
\<close>

record world =
  s3_region :: "string \<Rightarrow> exn + string"
  s3_copy :: "string \<Rightarrow> string \<Rightarrow> string \<Rightarrow> exn option"
  shell_returncode :: "string \<Rightarrow> int"
  wait_ends :: wait_event
  child_returncode :: int
  net_start :: net_counters
  net_end :: net_counters

section \<open>Python string primitives\<close>

text \<open>
  \<open>str.upper\<close>, on the letters \<open>a\<close> to \<open>z\<close>. The module only compares the result with
  \<open>"LOCAL"\<close>, and no character other than \<open>l\<close>, \<open>o\<close>, \<open>c\<close>, \<open>a\<close> has one of the
  letters of \<open>LOCAL\<close> as its upper case, so every other character is left as it is.
\<close>

definition upper_char :: "char \<Rightarrow> char" where
  "upper_char c =
     (let n = (of_char c :: nat) in if 97 \<le> n \<and> n \<le> 122 then char_of (n - 32) else c)"

definition upper :: "string \<Rightarrow> string" where
  "upper s = map upper_char s"

text \<open>
  \<open>s.split(sep)\<close> for a one-character separator: one more piece than there are
  separators, the empty string giving one empty piece.
\<close>

fun split :: "char \<Rightarrow> string \<Rightarrow> string list" where
  "split sep [] = [[]]"
| "split sep (c # cs) =
     (if c = sep then [] # split sep cs
      else (case split sep cs of
              [] \<Rightarrow> [[c]]
            | w # ws \<Rightarrow> (c # w) # ws))"

text \<open>\<open>xs[i]\<close> for a non-negative index: out of range raises \<open>IndexError\<close>.\<close>

definition index :: "'a list \<Rightarrow> nat \<Rightarrow> exn + 'a" where
  "index xs i = (if i < length xs then Inr (xs ! i) else Inl IndexError)"

text \<open>\<open>str(n)\<close> of an integer, as an f-string prints it: decimal, \<open>-\<close> before a negative.\<close>

fun str_nat :: "nat \<Rightarrow> string" where
  "str_nat n =
     (if n < 10 then [char_of (48 + n)]
      else str_nat (n div 10) @ [char_of (48 + n mod 10)])"

declare str_nat.simps [simp del]

definition str_int :: "int \<Rightarrow> string" where
  "str_int i = (if i < 0 then CHR ''-'' # str_nat (nat (- i)) else str_nat (nat i))"

text \<open>\<open>os.getenv(name)\<close>: the value, or \<open>None\<close> when the variable is not set.\<close>

definition getenv :: "(string \<rightharpoonup> string) \<Rightarrow> string \<Rightarrow> string option" where
  "getenv environ name = environ name"

text \<open>Truth value of an \<open>Optional[str]\<close>: \<open>None\<close> and the empty string are false.\<close>

definition truthy :: "string option \<Rightarrow> bool" where
  "truthy v = (case v of None \<Rightarrow> False | Some s \<Rightarrow> s \<noteq> [])"

section \<open>The module\<close>

definition DEFAULT_REPOSITORY_PATH :: string where
  "DEFAULT_REPOSITORY_PATH = ''https://one-docker-repository.s3.us-west-1.amazonaws.com/''"

definition DEFAULT_EXE_FOLDER :: string where
  "DEFAULT_EXE_FOLDER = ''/root/one_docker/package/''"

text \<open>
  \<open>handler\<close>, installed for SIGINT: whatever the signal number and the frame, it raises
  \<open>InterruptedError\<close> in the code that is running, which is the wait on the child.
\<close>

definition handler :: exn where
  "handler = InterruptedError"

text \<open>
  \<open>_parse_package_name\<close>: \<open>package_name.split("/")[0], package_name.split("/")[1]\<close>, the
  first component evaluated first.
\<close>

definition parse_package_name :: "string \<Rightarrow> exn + string \<times> string" where
  "parse_package_name package_name =
     (case index (split CHR ''/'' package_name) 0 of
        Inl e \<Rightarrow> Inl e
      | Inr team \<Rightarrow>
          (case index (split CHR ''/'' package_name) 1 of
             Inl e \<Rightarrow> Inl e
           | Inr exe_name \<Rightarrow> Inr (team, exe_name)))"

text \<open>
  \<open>_read_config\<close>: the argument if it is truthy, else the environment variable if its
  value is truthy (read a second time for the result), else the default. The result is
  what the \<open>return\<close> statement is given, an \<open>Optional[str]\<close> in the middle branch.
\<close>

definition read_config ::
  "(string \<rightharpoonup> string) \<Rightarrow> string \<Rightarrow> string option \<Rightarrow> string \<Rightarrow> string
     \<Rightarrow> event list \<times> string option" where
  "read_config environ config_name argument env_var default_val =
     (if truthy argument
      then ([Log (''Read '' @ config_name @ '' from program arguments...'')], argument)
      else if truthy (getenv environ env_var)
      then ([Log (''Read '' @ config_name @ '' from environment variables...'')],
            getenv environ env_var)
      else ([Log (''Read '' @ config_name @ '' from default value...'')], Some default_val))"

text \<open>
  \<open>_download_executables\<close>: the region is derived first, then the name is parsed, then
  the object at \<open>repository_path + package_name\<close> is copied to
  \<open>DEFAULT_EXE_FOLDER + exe_name\<close>. The result is the exception that ends the call, if any.
\<close>

definition exe_local_path :: "string \<Rightarrow> string" where
  "exe_local_path exe_name = DEFAULT_EXE_FOLDER @ exe_name"

definition download_executables :: "world \<Rightarrow> string \<Rightarrow> string \<Rightarrow> event list \<times> exn option" where
  "download_executables w repository_path package_name =
     (case s3_region w repository_path of
        Inl e \<Rightarrow> ([], Some e)
      | Inr region \<Rightarrow>
          (case parse_package_name package_name of
             Inl e \<Rightarrow> ([], Some e)
           | Inr (team, exe_name) \<Rightarrow>
               (let exe_s3_path = repository_path @ package_name
                in ([S3Copy region exe_s3_path (exe_local_path exe_name)],
                    s3_copy w region exe_s3_path (exe_local_path exe_name)))))"

text \<open>
  \<open>subprocess.run(command, shell=True)\<close>: the command runs to its end and the call
  returns its return code (there is no \<open>check=True\<close>, so no return code raises).
\<close>

definition subprocess_run :: "world \<Rightarrow> string \<Rightarrow> event list \<times> int" where
  "subprocess_run w command = ([ShellRun command], shell_returncode w command)"

text \<open>The file that \<open>run\<close> makes executable: \<open>f"{exe_path}/{exe_name}"\<close>.\<close>

definition chmod_target :: "string \<Rightarrow> string \<Rightarrow> string" where
  "chmod_target exe_path exe_name = exe_path @ ''/'' @ exe_name"

text \<open>Lines 69 and 70 of \<open>run\<close>: the command that is launched.\<close>

definition effective_cmd :: "string \<Rightarrow> string \<Rightarrow> string \<Rightarrow> string" where
  "effective_cmd repository_path exe_path cmd =
     (if upper repository_path = ''LOCAL'' then exe_path @ cmd else cmd)"

text \<open>
  The \<open>with subprocess.Popen(...) as proc\<close> block of \<open>run\<close>. The counters are sampled,
  then \<open>proc.communicate(timeout)\<close> waits. A timeout or an interrupt is caught: the child
  is terminated, its process group is sent SIGTERM, and the exception is raised again.
  Without a timeout a child that never exits keeps the call waiting. Otherwise the
  return code is read, the counters are sampled again and their difference is logged, and
  a return code other than 0 is logged and given to \<open>sys.exit\<close>. Leaving the block, on any
  path, runs the exit of the \<open>Popen\<close> context manager.
\<close>

definition net_usage_line :: "net_counters \<Rightarrow> net_counters \<Rightarrow> string" where
  "net_usage_line s e =
     ''Net usage: '' @ str_int (bytes_sent e - bytes_sent s) @ '' bytes sent, ''
       @ str_int (bytes_recv e - bytes_recv s) @ '' bytes received''"

definition popen_block :: "world \<Rightarrow> string \<Rightarrow> int option \<Rightarrow> event list \<times> outcome" where
  "popen_block w cmd timeout =
     (let started = [Popen cmd, NetIoCounters, Communicate timeout];
          aborted = started @ [ProcTerminate, KillpgSIGTERM, PopenExit]
      in case wait_ends w of
           Sigint \<Rightarrow> (aborted, Raises handler)
         | Overruns \<Rightarrow>
             (case timeout of
                None \<Rightarrow> (started, Blocks)
              | Some t \<Rightarrow> (aborted, Raises TimeoutExpired))
         | ChildExits \<Rightarrow>
             (let return_code = child_returncode w;
                  measured = started @
                    [ProcWait, NetIoCounters, Log (net_usage_line (net_start w) (net_end w))]
              in if return_code \<noteq> 0
                 then (measured @
                         [Log (''Subprocess returned non-zero return code: '' @ str_int return_code),
                          PopenExit],
                       SysExit return_code)
                 else (measured @ [PopenExit], Returns)))"

text \<open>
  \<open>run\<close>. The logger is the event list; the result of the \<open>chmod\<close> is bound and never
  read, as in the source, where the value of \<open>subprocess.run\<close> is dropped.
\<close>

definition run ::
  "world \<Rightarrow> string \<Rightarrow> string \<Rightarrow> string \<Rightarrow> string \<Rightarrow> int option \<Rightarrow> event list \<times> outcome" where
  "run w repository_path exe_path package_name cmd timeout =
     (let (ev_download, failed) =
            (if upper repository_path \<noteq> ''LOCAL''
             then (let (evs, r) = download_executables w repository_path package_name
                   in (Log ''Downloading executables ...'' # evs, r))
             else ([Log ''Local repository, skip download ...''], None))
      in case failed of
           Some e \<Rightarrow> (ev_download, Raises e)
         | None \<Rightarrow>
             (case parse_package_name package_name of
                Inl e \<Rightarrow> (ev_download, Raises e)
              | Inr (team, exe_name) \<Rightarrow>
                  (let (ev_chmod, completed) =
                         subprocess_run w (''chmod +x '' @ chmod_target exe_path exe_name);
                       cmd = effective_cmd repository_path exe_path cmd;
                       (ev_child, result) = popen_block w cmd timeout
                   in (ev_download @ ev_chmod
                         @ [Log (''Running cmd: '' @ cmd @ '' ...''), SignalInstallSIGINT]
                         @ ev_child,
                       result))))"

text \<open>The exit status of the launcher process, as seen from outside.\<close>

datatype exit_status = Status int | AbortNonZero | NeverExits

text \<open>
  Modelled from the spec: the command-line entry point that calls \<open>run\<close> is not in the
  source file. Sections 4.6 (step 9) and 4.7 give the exit status of the launcher: 0 when
  \<open>run\<close> returns (``implicit zero exit''), the code given to \<open>sys.exit\<close> when it exits,
  and some non-zero status, with no specific code, when a fatal error is raised.
\<close>

definition launcher_exit_status :: "outcome \<Rightarrow> exit_status" where
  "launcher_exit_status out =
     (case out of
        Returns \<Rightarrow> Status 0
      | SysExit c \<Rightarrow> Status c
      | Raises e \<Rightarrow> AbortNonZero
      | Blocks \<Rightarrow> NeverExits)"

text \<open>A world in which every external call succeeds and the child exits with code 0.\<close>

definition calm_world :: world where
  "calm_world =
     \<lparr> s3_region = (\<lambda>p. Inr ''us-west-1''),
       s3_copy = (\<lambda>r s d. None),
       shell_returncode = (\<lambda>c. 0),
       wait_ends = ChildExits,
       child_returncode = 0,
       net_start = \<lparr> bytes_sent = 100, bytes_recv = 200 \<rparr>,
       net_end = \<lparr> bytes_sent = 150, bytes_recv = 260 \<rparr> \<rparr>"

text \<open>
  The steps of \<open>run\<close> before the child is launched raise nothing: the download, when
  there is one, returns, and the package name has a second component.
\<close>

definition launches :: "world \<Rightarrow> string \<Rightarrow> string \<Rightarrow> bool" where
  "launches w repository_path package_name =
     ((upper repository_path \<noteq> ''LOCAL''
         \<longrightarrow> snd (download_executables w repository_path package_name) = None)
      \<and> CHR ''/'' \<in> set package_name)"

text \<open>A log line that reports the network usage.\<close>

fun is_net_usage_log :: "event \<Rightarrow> bool" where
  "is_net_usage_log (Log s) = prefix ''Net usage: '' s"
| "is_net_usage_log _ = False"

text \<open>
  The invariant of the data model, in the words of the specification: exactly one
  \<open>/\<close>, with a non-empty team before it and a non-empty executable name after it.
\<close>

definition conforming_package_name :: "string \<Rightarrow> bool" where
  "conforming_package_name s =
     (length (filter (\<lambda>c. c = CHR ''/'') s) = 1
      \<and> takeWhile (\<lambda>c. c \<noteq> CHR ''/'') s \<noteq> []
      \<and> tl (dropWhile (\<lambda>c. c \<noteq> CHR ''/'') s) \<noteq> [])"

text \<open>
  When two path strings name the same file or directory: both start at the root or both
  do not, and they have the same components. A repeated \<open>/\<close>, a final \<open>/\<close> and a
  component \<open>.\<close> add nothing to a path, as the file system resolves it; \<open>..\<close> and
  links are not resolved.
\<close>

definition is_absolute :: "string \<Rightarrow> bool" where
  "is_absolute p = (case p of [] \<Rightarrow> False | c # cs \<Rightarrow> c = CHR ''/'')"

definition path_components :: "string \<Rightarrow> string list" where
  "path_components p = filter (\<lambda>s. s \<noteq> [] \<and> s \<noteq> ''.'') (split CHR ''/'' p)"

definition same_path :: "string \<Rightarrow> string \<Rightarrow> bool" where
  "same_path p q = (is_absolute p = is_absolute q \<and> path_components p = path_components q)"

section \<open>Splitting and parsing\<close>

lemma split_not_Nil: "split sep s \<noteq> []"
  by (induction s) (auto split: list.splits)

lemma split_hd: "hd (split sep s) = takeWhile (\<lambda>c. c \<noteq> sep) s"
  using split_not_Nil [of sep] by (induction s) (auto split: list.splits)

lemma split_absent: "sep \<notin> set s \<Longrightarrow> split sep s = [s]"
  by (induction s) (auto split: list.splits)

lemma split_append: "sep \<notin> set a \<Longrightarrow> split sep (a @ sep # b) = a # split sep b"
  by (induction a) (auto split: list.splits)

lemma first_separator:
  "sep \<in> set s \<Longrightarrow>
     s = takeWhile (\<lambda>c. c \<noteq> sep) s @ sep # tl (dropWhile (\<lambda>c. c \<noteq> sep) s)"
  by (induction s) auto

lemma parse_absent: "CHR ''/'' \<notin> set s \<Longrightarrow> parse_package_name s = Inl IndexError"
  by (simp add: parse_package_name_def index_def split_absent)

lemma parse_append:
  assumes "CHR ''/'' \<notin> set a"
  shows "parse_package_name (a @ CHR ''/'' # b) = Inr (a, takeWhile (\<lambda>c. c \<noteq> CHR ''/'') b)"
proof -
  have s: "split CHR ''/'' (a @ CHR ''/'' # b) = a # split CHR ''/'' b"
    using assms by (rule split_append)
  have ne: "split CHR ''/'' b \<noteq> []" by (rule split_not_Nil)
  then have n: "(a # split CHR ''/'' b) ! 1 = hd (split CHR ''/'' b)"
    by (cases "split CHR ''/'' b") simp_all
  show ?thesis
    using ne by (simp add: parse_package_name_def index_def s n split_hd del: One_nat_def)
qed

lemma parse_present:
  assumes "CHR ''/'' \<in> set s"
  shows "parse_package_name s =
           Inr (takeWhile (\<lambda>c. c \<noteq> CHR ''/'') s,
                takeWhile (\<lambda>c. c \<noteq> CHR ''/'') (tl (dropWhile (\<lambda>c. c \<noteq> CHR ''/'') s)))"
proof -
  let ?a = "takeWhile (\<lambda>c. c \<noteq> CHR ''/'') s"
  let ?b = "tl (dropWhile (\<lambda>c. c \<noteq> CHR ''/'') s)"
  have d: "s = ?a @ CHR ''/'' # ?b" using assms by (rule first_separator)
  have "CHR ''/'' \<notin> set ?a" by (auto dest: set_takeWhileD)
  then have "parse_package_name (?a @ CHR ''/'' # ?b) = Inr (?a, takeWhile (\<lambda>c. c \<noteq> CHR ''/'') ?b)"
    by (rule parse_append)
  with d show ?thesis by simp
qed

section \<open>The package name parser\<close>

text \<open>
  C5 (as amended). Parsing fails, with \<open>IndexError\<close>, exactly when the package name
  contains no \<open>/\<close>: every name with at least one \<open>/\<close> parses, whether or not a segment
  is empty and however many \<open>/\<close> there are, and so every conforming name parses.
\<close>

theorem parse_fails_iff_no_separator:
  "(CHR ''/'' \<notin> set s \<longrightarrow> parse_package_name s = Inl IndexError)
   \<and> (CHR ''/'' \<in> set s \<longrightarrow> (\<exists>team exe_name. parse_package_name s = Inr (team, exe_name)))
   \<and> (conforming_package_name s \<longrightarrow> (\<exists>team exe_name. parse_package_name s = Inr (team, exe_name)))"
proof -
  have "filter (\<lambda>c. c = CHR ''/'') s = []" if "CHR ''/'' \<notin> set s"
    using that by (induction s) auto
  then have "conforming_package_name s \<Longrightarrow> CHR ''/'' \<in> set s"
    unfolding conforming_package_name_def by fastforce
  then show ?thesis
    by (auto simp: parse_absent parse_present)
qed

theorem parse_fails_iff_no_separator_witness:
  "parse_package_name ''exe'' = Inl IndexError
   \<and> (\<exists>team exe_name. parse_package_name ''team/'' = Inr (team, exe_name))
   \<and> conforming_package_name ''team/exe''
   \<and> (\<exists>team exe_name. parse_package_name ''team/exe'' = Inr (team, exe_name))"
  using parse_fails_iff_no_separator [where s = "''exe''"]
    parse_fails_iff_no_separator [where s = "''team/''"]
    parse_fails_iff_no_separator [where s = "''team/exe''"]
  by (simp add: conforming_package_name_def)

text \<open>
  The claim as it is written fails: \<open>"/exe"\<close> has an empty team, so it does not conform,
  and it parses.
\<close>

theorem empty_team_parses_counterexample:
  "\<not> conforming_package_name ''/exe'' \<and> parse_package_name ''/exe'' = Inr ('''', ''exe'')"
  by (simp add: conforming_package_name_def parse_package_name_def index_def)

text \<open>
  C6 (as amended). For a package name with at least one \<open>/\<close> the parser returns the text
  before the first \<open>/\<close> as the team and the text between the first \<open>/\<close> and the next
  one (or the end of the name) as the executable name; for \<open>team/exe\<close> with no \<open>/\<close>
  in either part it returns \<open>(team, exe)\<close>.
\<close>

theorem parse_second_component:
  "(CHR ''/'' \<in> set s \<longrightarrow>
      parse_package_name s =
        Inr (takeWhile (\<lambda>c. c \<noteq> CHR ''/'') s,
             takeWhile (\<lambda>c. c \<noteq> CHR ''/'') (tl (dropWhile (\<lambda>c. c \<noteq> CHR ''/'') s))))
   \<and> (CHR ''/'' \<notin> set team \<and> CHR ''/'' \<notin> set exe
        \<longrightarrow> parse_package_name (team @ ''/'' @ exe) = Inr (team, exe))"
proof -
  have "parse_package_name (team @ ''/'' @ exe) = Inr (team, exe)"
    if "CHR ''/'' \<notin> set team" "CHR ''/'' \<notin> set exe"
  proof -
    have "takeWhile (\<lambda>c. c \<noteq> CHR ''/'') exe = exe"
      using that(2) by (induction exe) auto
    then show ?thesis
      using parse_append [OF that(1), of exe] by simp
  qed
  then show ?thesis
    by (simp add: parse_present)
qed

theorem parse_second_component_witness:
  "CHR ''/'' \<in> set ''a/b/c'' \<and> parse_package_name ''a/b/c'' = Inr (''a'', ''b'')
   \<and> parse_package_name (''team'' @ ''/'' @ ''exe'') = Inr (''team'', ''exe'')"
  using parse_second_component [where s = "''a/b/c''" and team = "''team''" and exe = "''exe''"]
  by simp

text \<open>
  The claim as it is written fails: of \<open>"a/b/c"\<close> the parser returns \<open>b\<close>, not \<open>b/c\<close>.
\<close>

theorem parse_drops_rest_counterexample:
  "parse_package_name ''a/b/c'' = Inr (''a'', ''b'')
   \<and> parse_package_name ''a/b/c'' \<noteq> Inr (''a'', ''b/c'')"
  by (simp add: parse_package_name_def index_def)

section \<open>The configuration resolver\<close>

text \<open>
  C3. \<open>_read_config\<close> returns the argument when it is present and non-empty, whatever the
  environment and the default; else the value of the environment variable when it is set
  and non-empty, whatever the default; else the default. In each case it logs one line,
  which names the configuration key and the source used.
\<close>

theorem read_config_precedence:
  "(truthy argument \<longrightarrow>
      read_config environ config_name argument env_var default_val =
        ([Log (''Read '' @ config_name @ '' from program arguments...'')], argument))
   \<and> (\<not> truthy argument \<and> truthy (environ env_var) \<longrightarrow>
      read_config environ config_name argument env_var default_val =
        ([Log (''Read '' @ config_name @ '' from environment variables...'')], environ env_var))
   \<and> (\<not> truthy argument \<and> \<not> truthy (environ env_var) \<longrightarrow>
      read_config environ config_name argument env_var default_val =
        ([Log (''Read '' @ config_name @ '' from default value...'')], Some default_val))
   \<and> length (fst (read_config environ config_name argument env_var default_val)) = 1"
  by (simp add: read_config_def getenv_def)

theorem read_config_precedence_witness:
  "read_config [''V'' \<mapsto> ''E''] ''k'' (Some ''A'') ''V'' ''D''
     = ([Log ''Read k from program arguments...''], Some ''A'')
   \<and> read_config [''V'' \<mapsto> ''E''] ''k'' None ''V'' ''D''
     = ([Log ''Read k from environment variables...''], Some ''E'')
   \<and> read_config [''V'' \<mapsto> ''E''] ''k'' (Some '''') ''V'' ''D''
     = ([Log ''Read k from environment variables...''], Some ''E'')
   \<and> read_config Map.empty ''k'' None ''V'' ''D''
     = ([Log ''Read k from default value...''], Some ''D'')
   \<and> read_config [''V'' \<mapsto> ''''] ''k'' None ''V'' ''D''
     = ([Log ''Read k from default value...''], Some ''D'')"
  using read_config_precedence
      [where argument = "Some ''A''" and environ = "[''V'' \<mapsto> ''E'']" and env_var = "''V''"
         and config_name = "''k''" and default_val = "''D''"]
    read_config_precedence
      [where argument = None and environ = "[''V'' \<mapsto> ''E'']" and env_var = "''V''"
         and config_name = "''k''" and default_val = "''D''"]
    read_config_precedence
      [where argument = "Some ''''" and environ = "[''V'' \<mapsto> ''E'']" and env_var = "''V''"
         and config_name = "''k''" and default_val = "''D''"]
    read_config_precedence
      [where argument = None and environ = Map.empty and env_var = "''V''"
         and config_name = "''k''" and default_val = "''D''"]
    read_config_precedence
      [where argument = None and environ = "[''V'' \<mapsto> '''']" and env_var = "''V''"
         and config_name = "''k''" and default_val = "''D''"]
  by (simp add: truthy_def)

text \<open>
  C7. \<open>_read_config\<close> has no failing branch and its result is always a string: the
  environment tier returns \<open>os.getenv(env_var)\<close>, which could be \<open>None\<close>, only after
  the same lookup was found set and non-empty.
\<close>

theorem read_config_returns_string:
  "\<exists>line val. read_config environ config_name argument env_var default_val
      = ([Log line], Some val)"
  by (auto simp: read_config_def getenv_def truthy_def split: option.splits)

section \<open>The process runner\<close>

lemma upper_LOCAL: "upper ''LOCAL'' = ''LOCAL''"
  by code_simp

lemma launches_parses:
  "launches w repository_path package_name \<Longrightarrow>
     \<exists>team exe_name. parse_package_name package_name = Inr (team, exe_name)"
  by (auto simp: launches_def parse_present)

text \<open>What \<open>run\<close> does up to the launch, when nothing before the launch raises.\<close>

lemma run_launched:
  assumes l: "launches w repository_path package_name"
    and p: "parse_package_name package_name = Inr (team, exe_name)"
  shows "run w repository_path exe_path package_name cmd timeout =
     ((if upper repository_path \<noteq> ''LOCAL''
       then Log ''Downloading executables ...''
              # fst (download_executables w repository_path package_name)
       else [Log ''Local repository, skip download ...''])
      @ [ShellRun (''chmod +x '' @ chmod_target exe_path exe_name),
         Log (''Running cmd: '' @ effective_cmd repository_path exe_path cmd @ '' ...''),
         SignalInstallSIGINT]
      @ fst (popen_block w (effective_cmd repository_path exe_path cmd) timeout),
      snd (popen_block w (effective_cmd repository_path exe_path cmd) timeout))"
proof (cases "upper repository_path = ''LOCAL''")
  case True
  then show ?thesis
    by (simp add: run_def p subprocess_run_def Let_def split: prod.splits)
next
  case False
  with l have "snd (download_executables w repository_path package_name) = None"
    by (simp add: launches_def)
  then obtain evs where d: "download_executables w repository_path package_name = (evs, None)"
    by (cases "download_executables w repository_path package_name") simp
  from False show ?thesis
    by (simp add: run_def d p subprocess_run_def Let_def split: prod.splits)
qed

text \<open>The download logs nothing and launches nothing: it copies at most once.\<close>

lemma download_events:
  "fst (download_executables w repository_path package_name) = []
   \<or> (\<exists>region src dst.
        fst (download_executables w repository_path package_name) = [S3Copy region src dst])"
  by (simp add: download_executables_def Let_def split: sum.splits prod.splits)

lemma download_succeeded:
  assumes "snd (download_executables w repository_path package_name) = None"
    and "parse_package_name package_name = Inr (team, exe_name)"
  shows "\<exists>region. s3_region w repository_path = Inr region
           \<and> download_executables w repository_path package_name =
               ([S3Copy region (repository_path @ package_name) (DEFAULT_EXE_FOLDER @ exe_name)],
                None)"
  using assms
  by (auto simp: download_executables_def exe_local_path_def Let_def split: sum.splits)

text \<open>The three ways in which the block around the child ends.\<close>

lemma popen_block_exits:
  "wait_ends w = ChildExits \<Longrightarrow>
     popen_block w c timeout =
       ([Popen c, NetIoCounters, Communicate timeout, ProcWait, NetIoCounters,
         Log (net_usage_line (net_start w) (net_end w))]
        @ (if child_returncode w \<noteq> 0
           then [Log (''Subprocess returned non-zero return code: ''
                       @ str_int (child_returncode w))]
           else [])
        @ [PopenExit],
        if child_returncode w \<noteq> 0 then SysExit (child_returncode w) else Returns)"
  by (simp add: popen_block_def Let_def)

lemma popen_block_aborts:
  "wait_ends w = Sigint \<or> (wait_ends w = Overruns \<and> timeout \<noteq> None) \<Longrightarrow>
     popen_block w c timeout =
       ([Popen c, NetIoCounters, Communicate timeout, ProcTerminate, KillpgSIGTERM, PopenExit],
        Raises (if wait_ends w = Sigint then InterruptedError else TimeoutExpired))"
  by (auto simp: popen_block_def handler_def Let_def)

lemma popen_block_launches:
  "\<exists>rest. fst (popen_block w c timeout) = Popen c # rest \<and> (\<forall>c'. Popen c' \<notin> set rest)"
  by (cases "wait_ends w"; cases timeout) (simp_all add: popen_block_def Let_def)

lemma popen_block_copies_nothing:
  "popen_block w c timeout = (evs, out) \<Longrightarrow> S3Copy region src dst \<notin> set evs"
  by (cases "wait_ends w"; cases timeout) (auto simp: popen_block_def Let_def split: if_splits)

text \<open>Every copy that \<open>run\<close> asks for is the one of the download.\<close>

lemma run_copies:
  assumes "S3Copy region src dst \<in> set (fst (run w repository_path exe_path package_name cmd timeout))"
  shows "upper repository_path \<noteq> ''LOCAL''
       \<and> (\<exists>team exe_name. parse_package_name package_name = Inr (team, exe_name)
             \<and> src = repository_path @ package_name
             \<and> dst = DEFAULT_EXE_FOLDER @ exe_name)"
proof -
  have d: "S3Copy region src dst \<in> set (fst (download_executables w repository_path package_name))
        \<and> upper repository_path \<noteq> ''LOCAL''"
    using assms
    by (auto simp: run_def subprocess_run_def Let_def
        split: if_splits sum.splits option.splits prod.splits
        dest: popen_block_copies_nothing)
  then show ?thesis
    by (auto simp: download_executables_def exe_local_path_def Let_def
        split: sum.splits prod.splits)
qed

lemma download_child_returncode [simp]:
  "download_executables (w\<lparr>child_returncode := c\<rparr>) = download_executables w"
  by (rule ext, rule ext)
    (simp add: download_executables_def Let_def split: sum.splits prod.splits)

lemma download_shell_returncode [simp]:
  "download_executables (w\<lparr>shell_returncode := rc\<rparr>) = download_executables w"
  by (rule ext, rule ext)
    (simp add: download_executables_def Let_def split: sum.splits prod.splits)

lemma download_wait_ends [simp]:
  "download_executables (w\<lparr>wait_ends := e\<rparr>) = download_executables w"
  by (rule ext, rule ext)
    (simp add: download_executables_def Let_def split: sum.splits prod.splits)

lemma launches_calm_local: "launches calm_world ''LOCAL'' ''team/myprog''"
  by (simp add: launches_def upper_LOCAL)

lemma upper_remote: "upper ''https://repo.example.com/'' \<noteq> ''LOCAL''"
  by (simp add: upper_def)

lemma launches_calm_remote: "launches calm_world ''https://repo.example.com/'' ''teamA/toolB''"
  by (simp add: launches_def download_executables_def calm_world_def
      parse_package_name_def index_def Let_def)

text \<open>
  C1. When the child completes, a return code of 0 makes \<open>run\<close> return, which leaves the
  launcher with exit status 0, and any other return code \<open>c\<close> is logged and given to
  \<open>sys.exit\<close>, which leaves the launcher with exit status \<open>c\<close>.
\<close>

theorem run_propagates_exit_code:
  assumes "launches w repository_path package_name" and "wait_ends w = ChildExits"
  shows "(child_returncode w = 0 \<longrightarrow>
            snd (run w repository_path exe_path package_name cmd timeout) = Returns
          \<and> launcher_exit_status (snd (run w repository_path exe_path package_name cmd timeout))
              = Status 0)
       \<and> (child_returncode w \<noteq> 0 \<longrightarrow>
            snd (run w repository_path exe_path package_name cmd timeout)
              = SysExit (child_returncode w)
          \<and> Log (''Subprocess returned non-zero return code: '' @ str_int (child_returncode w))
              \<in> set (fst (run w repository_path exe_path package_name cmd timeout))
          \<and> launcher_exit_status (snd (run w repository_path exe_path package_name cmd timeout))
              = Status (child_returncode w))"
proof -
  from assms(1) obtain team exe_name
    where p: "parse_package_name package_name = Inr (team, exe_name)"
    using launches_parses by blast
  show ?thesis
    by (simp add: run_launched [OF assms(1) p] popen_block_exits [OF assms(2)]
        launcher_exit_status_def)
qed

theorem run_propagates_exit_code_witness:
  "launches calm_world ''LOCAL'' ''team/myprog'' \<and> wait_ends calm_world = ChildExits
   \<and> snd (run calm_world ''LOCAL'' ''/opt/bin/'' ''team/myprog'' ''myprog'' None) = Returns
   \<and> launcher_exit_status
        (snd (run (calm_world\<lparr>child_returncode := 7\<rparr>) ''LOCAL'' ''/opt/bin/'' ''team/myprog''
                ''myprog'' None)) = Status 7"
proof -
  have l: "launches calm_world ''LOCAL'' ''team/myprog''" by (rule launches_calm_local)
  have w: "wait_ends calm_world = ChildExits" by (simp add: calm_world_def)
  have l7: "launches (calm_world\<lparr>child_returncode := 7\<rparr>) ''LOCAL'' ''team/myprog''"
    by (simp add: launches_def upper_LOCAL)
  have w7: "wait_ends (calm_world\<lparr>child_returncode := 7\<rparr>) = ChildExits"
    by (simp add: calm_world_def)
  have c0: "child_returncode calm_world = 0" by (simp add: calm_world_def)
  show ?thesis
    using run_propagates_exit_code [OF l w, of "''/opt/bin/''" "''myprog''" None]
      run_propagates_exit_code [OF l7 w7, of "''/opt/bin/''" "''myprog''" None] l w c0
    by (simp add: launcher_exit_status_def)
qed

text \<open>
  C2. When the wait is aborted, by a SIGINT or by the expiry of a configured timeout,
  \<open>run\<close> terminates the child, sends SIGTERM to its process group and raises the
  condition that aborted the wait. On this path no network usage is logged, the return
  code of the child is never read, and the launcher ends with a fatal error.
\<close>

theorem run_abort_path:
  assumes "launches w repository_path package_name"
    and "wait_ends w = Sigint \<or> (wait_ends w = Overruns \<and> timeout \<noteq> None)"
  shows "(\<exists>pre. fst (run w repository_path exe_path package_name cmd timeout)
                  = pre @ [Communicate timeout, ProcTerminate, KillpgSIGTERM, PopenExit])
       \<and> snd (run w repository_path exe_path package_name cmd timeout)
           = Raises (if wait_ends w = Sigint then InterruptedError else TimeoutExpired)
       \<and> (\<forall>e \<in> set (fst (run w repository_path exe_path package_name cmd timeout)).
             \<not> is_net_usage_log e)
       \<and> ProcWait \<notin> set (fst (run w repository_path exe_path package_name cmd timeout))
       \<and> launcher_exit_status (snd (run w repository_path exe_path package_name cmd timeout))
           = AbortNonZero"
proof -
  from assms(1) obtain team exe_name
    where p: "parse_package_name package_name = Inr (team, exe_name)"
    using launches_parses by blast
  note r = run_launched [OF assms(1) p] popen_block_aborts [OF assms(2)]
  have "\<exists>pre. fst (run w repository_path exe_path package_name cmd timeout)
                  = pre @ [Communicate timeout, ProcTerminate, KillpgSIGTERM, PopenExit]"
    by (simp add: r del: append.simps)
  moreover have "\<forall>e \<in> set (fst (run w repository_path exe_path package_name cmd timeout)).
             \<not> is_net_usage_log e"
    using download_events [of w repository_path package_name] by (auto simp: r)
  moreover have "ProcWait \<notin> set (fst (run w repository_path exe_path package_name cmd timeout))"
    using download_events [of w repository_path package_name] by (auto simp: r)
  ultimately show ?thesis
    by (simp add: r launcher_exit_status_def)
qed

theorem run_abort_path_witness:
  "launches (calm_world\<lparr>wait_ends := Overruns\<rparr>) ''LOCAL'' ''team/myprog''
   \<and> run (calm_world\<lparr>wait_ends := Overruns\<rparr>) ''LOCAL'' ''/opt/bin/'' ''team/myprog'' ''myprog''
        (Some 5) =
       ([Log ''Local repository, skip download ...'', ShellRun ''chmod +x /opt/bin//myprog'',
         Log ''Running cmd: /opt/bin/myprog ...'', SignalInstallSIGINT, Popen ''/opt/bin/myprog'',
         NetIoCounters, Communicate (Some 5), ProcTerminate, KillpgSIGTERM, PopenExit],
        Raises TimeoutExpired)
   \<and> snd (run (calm_world\<lparr>wait_ends := Sigint\<rparr>) ''LOCAL'' ''/opt/bin/'' ''team/myprog''
            ''myprog'' None) = Raises InterruptedError"
proof -
  have l: "launches (calm_world\<lparr>wait_ends := Overruns\<rparr>) ''LOCAL'' ''team/myprog''"
    by (simp add: launches_def upper_LOCAL)
  have l': "launches (calm_world\<lparr>wait_ends := Sigint\<rparr>) ''LOCAL'' ''team/myprog''"
    by (simp add: launches_def upper_LOCAL)
  have a: "wait_ends (calm_world\<lparr>wait_ends := Overruns\<rparr>) = Sigint
         \<or> (wait_ends (calm_world\<lparr>wait_ends := Overruns\<rparr>) = Overruns \<and> Some (5::int) \<noteq> None)"
    by simp
  have a': "wait_ends (calm_world\<lparr>wait_ends := Sigint\<rparr>) = Sigint
         \<or> (wait_ends (calm_world\<lparr>wait_ends := Sigint\<rparr>) = Overruns \<and> (None :: int option) \<noteq> None)"
    by simp
  have full: "fst (run (calm_world\<lparr>wait_ends := Overruns\<rparr>) ''LOCAL'' ''/opt/bin/''
                ''team/myprog'' ''myprog'' (Some 5)) =
       [Log ''Local repository, skip download ...'', ShellRun ''chmod +x /opt/bin//myprog'',
         Log ''Running cmd: /opt/bin/myprog ...'', SignalInstallSIGINT, Popen ''/opt/bin/myprog'',
         NetIoCounters, Communicate (Some 5), ProcTerminate, KillpgSIGTERM, PopenExit]"
    by (simp add: run_def upper_LOCAL parse_package_name_def index_def subprocess_run_def
        chmod_target_def effective_cmd_def popen_block_def Let_def)
  show ?thesis
    using run_abort_path [OF l a, of "''/opt/bin/''" "''myprog''"]
      run_abort_path [OF l' a', of "''/opt/bin/''" "''myprog''"] l full
    by (simp add: prod_eq_iff)
qed

text \<open>
  C4 (as amended). When \<open>repository_path\<close> is \<open>LOCAL\<close> in any letter case, the command
  that \<open>run\<close> launches is \<open>exe_path\<close> immediately followed by \<open>cmd\<close>, with nothing put
  between them; otherwise it is \<open>cmd\<close> as given. It is the only command launched.
\<close>

theorem run_command_normalization:
  assumes "launches w repository_path package_name"
  shows "\<exists>before after.
           fst (run w repository_path exe_path package_name cmd timeout)
             = before
               @ Popen (if upper repository_path = ''LOCAL'' then exe_path @ cmd else cmd)
               # after
         \<and> (\<forall>c. Popen c \<notin> set before \<and> Popen c \<notin> set after)"
proof -
  from assms obtain team exe_name
    where p: "parse_package_name package_name = Inr (team, exe_name)"
    using launches_parses by blast
  let ?c = "if upper repository_path = ''LOCAL'' then exe_path @ cmd else cmd"
  let ?before =
    "(if upper repository_path \<noteq> ''LOCAL''
      then Log ''Downloading executables ...''
             # fst (download_executables w repository_path package_name)
      else [Log ''Local repository, skip download ...''])
     @ [ShellRun (''chmod +x '' @ chmod_target exe_path exe_name),
        Log (''Running cmd: '' @ ?c @ '' ...''), SignalInstallSIGINT]"
  obtain rest where rest: "fst (popen_block w ?c timeout) = Popen ?c # rest"
    and none: "\<forall>c'. Popen c' \<notin> set rest"
    using popen_block_launches [of w ?c timeout] by blast
  have "fst (run w repository_path exe_path package_name cmd timeout) = ?before @ Popen ?c # rest"
    using rest by (simp add: run_launched [OF assms p] effective_cmd_def)
  moreover have "\<forall>c. Popen c \<notin> set ?before"
    using download_events [of w repository_path package_name] by auto
  ultimately show ?thesis
    using none by blast
qed

theorem run_command_normalization_witness:
  "launches calm_world ''local'' ''team/myprog''
   \<and> launches calm_world ''https://repo.example.com/'' ''teamA/toolB''
   \<and> (\<exists>before after.
         fst (run calm_world ''local'' ''/opt/bin/'' ''team/myprog'' ''./myprog --x'' None)
           = before @ Popen ''/opt/bin/./myprog --x'' # after)
   \<and> (\<exists>before after.
         fst (run calm_world ''https://repo.example.com/'' ''/opt/bin/'' ''teamA/toolB''
                ''/opt/bin/toolB --x'' None)
           = before @ Popen ''/opt/bin/toolB --x'' # after)"
proof -
  have u: "upper ''local'' = ''LOCAL''" by code_simp
  have l: "launches calm_world ''local'' ''team/myprog''"
    by (simp add: launches_def u)
  have r: "launches calm_world ''https://repo.example.com/'' ''teamA/toolB''"
    by (rule launches_calm_remote)
  show ?thesis
    using run_command_normalization [OF l, of "''/opt/bin/''" "''./myprog --x''" None]
      run_command_normalization [OF r, of "''/opt/bin/''" "''/opt/bin/toolB --x''" None]
      l r u upper_remote
    by auto
qed

text \<open>
  The claim as it is written fails at its own example: with \<open>exe_path\<close> \<open>/opt/bin\<close> and
  \<open>cmd\<close> \<open>./myprog --x\<close> the command launched is \<open>/opt/bin./myprog --x\<close>.
\<close>

theorem no_separator_inserted_counterexample:
  "Popen ''/opt/bin./myprog --x''
     \<in> set (fst (run calm_world ''LOCAL'' ''/opt/bin'' ''team/myprog'' ''./myprog --x'' None))
   \<and> Popen ''/opt/bin/./myprog --x''
     \<notin> set (fst (run calm_world ''LOCAL'' ''/opt/bin'' ''team/myprog'' ''./myprog --x'' None))"
  by (simp add: run_def upper_LOCAL parse_package_name_def index_def subprocess_run_def
      chmod_target_def effective_cmd_def popen_block_def calm_world_def Let_def)

text \<open>
  C8. The return code of the \<open>chmod\<close> command has no effect on \<open>run\<close>: whatever the shell
  answers, the events and the result are the same, and the child is launched with the
  normalized command whenever nothing before the launch raises.
\<close>

theorem chmod_result_ignored:
  "run (w\<lparr>shell_returncode := rc\<rparr>) repository_path exe_path package_name cmd timeout
     = run w repository_path exe_path package_name cmd timeout
   \<and> (launches w repository_path package_name \<longrightarrow>
        Popen (effective_cmd repository_path exe_path cmd)
          \<in> set (fst (run (w\<lparr>shell_returncode := rc\<rparr>) repository_path exe_path package_name
                         cmd timeout)))"
proof -
  have pb: "popen_block (w\<lparr>shell_returncode := rc\<rparr>) = popen_block w"
    by (rule ext, rule ext) (simp add: popen_block_def Let_def split: wait_event.splits)
  have eq: "run (w\<lparr>shell_returncode := rc\<rparr>) repository_path exe_path package_name cmd timeout
     = run w repository_path exe_path package_name cmd timeout"
    by (simp add: run_def pb subprocess_run_def Let_def
        split: sum.splits option.splits prod.splits)
  have "Popen (effective_cmd repository_path exe_path cmd)
          \<in> set (fst (run w repository_path exe_path package_name cmd timeout))"
    if l: "launches w repository_path package_name"
  proof -
    from l obtain team exe_name
      where p: "parse_package_name package_name = Inr (team, exe_name)"
      using launches_parses by blast
    obtain rest where
      "fst (popen_block w (effective_cmd repository_path exe_path cmd) timeout)
         = Popen (effective_cmd repository_path exe_path cmd) # rest"
      using popen_block_launches by blast
    then show ?thesis
      by (simp add: run_launched [OF l p])
  qed
  with eq show ?thesis by simp
qed

theorem chmod_result_ignored_witness:
  "launches calm_world ''LOCAL'' ''team/myprog''
   \<and> run (calm_world\<lparr>shell_returncode := (\<lambda>c. 1)\<rparr>) ''LOCAL'' ''/opt/bin/'' ''team/myprog''
        ''myprog'' None
     = run calm_world ''LOCAL'' ''/opt/bin/'' ''team/myprog'' ''myprog'' None
   \<and> Popen ''/opt/bin/myprog''
       \<in> set (fst (run (calm_world\<lparr>shell_returncode := (\<lambda>c. 1)\<rparr>) ''LOCAL'' ''/opt/bin/''
                      ''team/myprog'' ''myprog'' None))"
  using chmod_result_ignored
      [where w = calm_world and rc = "\<lambda>c. 1" and repository_path = "''LOCAL''"
         and exe_path = "''/opt/bin/''" and package_name = "''team/myprog''"
         and cmd = "''myprog''" and timeout = None]
    launches_calm_local
  by (auto simp: effective_cmd_def upper_LOCAL)

section \<open>Paths\<close>

lemma split_at_separator: "split sep (a @ sep # b) = split sep a @ split sep b"
proof (induction a)
  case Nil
  show ?case by simp
next
  case (Cons c a)
  obtain w ws where s: "split sep a = w # ws"
    using split_not_Nil [of sep a] by (cases "split sep a") auto
  show ?case
    using Cons s by simp
qed

lemma path_components_join:
  "path_components (a @ CHR ''/'' # b) = path_components a @ path_components b"
  by (simp only: path_components_def split_at_separator filter_append)

lemma path_components_folder:
  "path_components ''/root/one_docker/package'' = [''root'', ''one_docker'', ''package'']"
  by (simp add: path_components_def)

text \<open>
  The file made executable is the file the download wrote exactly when \<open>exe_path\<close> names
  the fixed folder.
\<close>

lemma same_path_chmod:
  "same_path (chmod_target exe_path exe_name) (exe_local_path exe_name)
     = same_path exe_path DEFAULT_EXE_FOLDER"
proof -
  have t: "chmod_target exe_path exe_name = exe_path @ CHR ''/'' # exe_name"
    by (simp add: chmod_target_def)
  have d: "exe_local_path exe_name = ''/root/one_docker/package'' @ CHR ''/'' # exe_name"
    by (simp add: exe_local_path_def DEFAULT_EXE_FOLDER_def)
  have f: "DEFAULT_EXE_FOLDER = ''/root/one_docker/package'' @ CHR ''/'' # []"
    by (simp add: DEFAULT_EXE_FOLDER_def)
  have e: "path_components [] = []"
    by (simp add: path_components_def)
  have ct: "path_components (chmod_target exe_path exe_name)
              = path_components exe_path @ path_components exe_name"
    unfolding t by (rule path_components_join)
  have cd: "path_components (exe_local_path exe_name)
              = [''root'', ''one_docker'', ''package''] @ path_components exe_name"
    unfolding d path_components_join path_components_folder ..
  have cf: "path_components DEFAULT_EXE_FOLDER = [''root'', ''one_docker'', ''package'']"
    unfolding f path_components_join path_components_folder e by simp
  have at: "is_absolute (chmod_target exe_path exe_name) = (exe_path = [] \<or> is_absolute exe_path)"
    by (cases exe_path) (simp_all add: is_absolute_def chmod_target_def)
  have ad: "is_absolute (exe_local_path exe_name)"
    by (simp add: is_absolute_def exe_local_path_def DEFAULT_EXE_FOLDER_def)
  have af: "is_absolute DEFAULT_EXE_FOLDER"
    by (simp add: is_absolute_def DEFAULT_EXE_FOLDER_def)
  have "same_path (chmod_target exe_path exe_name) (exe_local_path exe_name)
          = ((exe_path = [] \<or> is_absolute exe_path)
             \<and> path_components exe_path = [''root'', ''one_docker'', ''package''])"
    by (simp only: same_path_def ct cd at ad append_same_eq simp_thms)
  also have "\<dots> = (is_absolute exe_path
             \<and> path_components exe_path = [''root'', ''one_docker'', ''package''])"
    using e by auto
  also have "\<dots> = same_path exe_path DEFAULT_EXE_FOLDER"
    by (simp only: same_path_def cf af simp_thms)
  finally show ?thesis .
qed

text \<open>
  What a downloading invocation does first, when it reaches the launch.
\<close>

lemma download_then_chmod:
  assumes "upper repository_path \<noteq> ''LOCAL''"
    and "launches w repository_path package_name"
  shows "\<exists>region team exe_name.
           s3_region w repository_path = Inr region
         \<and> parse_package_name package_name = Inr (team, exe_name)
         \<and> (\<exists>rest.
               fst (run w repository_path exe_path package_name cmd timeout)
                 = [Log ''Downloading executables ...'',
                    S3Copy region (repository_path @ package_name) (exe_local_path exe_name),
                    ShellRun (''chmod +x '' @ chmod_target exe_path exe_name)] @ rest)"
proof -
  from assms(2) obtain team exe_name
    where p: "parse_package_name package_name = Inr (team, exe_name)"
    using launches_parses by blast
  from assms have "snd (download_executables w repository_path package_name) = None"
    by (simp add: launches_def)
  then obtain region where g: "s3_region w repository_path = Inr region" and
    d: "download_executables w repository_path package_name =
          ([S3Copy region (repository_path @ package_name) (DEFAULT_EXE_FOLDER @ exe_name)], None)"
    using download_succeeded [OF _ p] by blast
  have r: "\<exists>rest. fst (run w repository_path exe_path package_name cmd timeout)
                 = [Log ''Downloading executables ...'',
                    S3Copy region (repository_path @ package_name) (exe_local_path exe_name),
                    ShellRun (''chmod +x '' @ chmod_target exe_path exe_name)] @ rest"
    using assms(1)
    by (simp add: run_launched [OF assms(2) p] d exe_local_path_def)
  from g p r show ?thesis
    by (intro exI [of _ region] exI [of _ team] exI [of _ exe_name] conjI)
qed

text \<open>
  C9. Every copy that \<open>run\<close> asks for, in any invocation, is a download into
  \<open>/root/one_docker/package/\<close> followed by the executable name: the destination comes
  from \<open>package_name\<close> alone, whatever \<open>exe_path\<close> is. When the download returns, the
  file then made executable is \<open>exe_path\<close>, a \<open>/\<close> and the executable name. Whenever
  \<open>exe_path\<close> does not name the fixed directory, that file is not the file the download
  wrote; when it names the fixed directory, with or without the final \<open>/\<close>, it is.
\<close>

theorem download_destination_fixed:
  "(\<forall>region src dst.
      S3Copy region src dst
        \<in> set (fst (run w repository_path exe_path package_name cmd timeout)) \<longrightarrow>
      upper repository_path \<noteq> ''LOCAL''
      \<and> (\<exists>team exe_name. parse_package_name package_name = Inr (team, exe_name)
            \<and> src = repository_path @ package_name
            \<and> dst = ''/root/one_docker/package/'' @ exe_name))
   \<and> (upper repository_path \<noteq> ''LOCAL'' \<and> launches w repository_path package_name \<longrightarrow>
        (\<exists>region team exe_name.
           s3_region w repository_path = Inr region
         \<and> parse_package_name package_name = Inr (team, exe_name)
         \<and> (\<exists>rest.
               fst (run w repository_path exe_path package_name cmd timeout)
                 = [Log ''Downloading executables ...'',
                    S3Copy region (repository_path @ package_name) (exe_local_path exe_name),
                    ShellRun (''chmod +x '' @ chmod_target exe_path exe_name)] @ rest)))
   \<and> exe_local_path exe_name = ''/root/one_docker/package/'' @ exe_name
   \<and> chmod_target exe_path exe_name = exe_path @ ''/'' @ exe_name
   \<and> (\<not> same_path exe_path DEFAULT_EXE_FOLDER \<longrightarrow>
        \<not> same_path (chmod_target exe_path exe_name) (exe_local_path exe_name))
   \<and> (same_path exe_path DEFAULT_EXE_FOLDER \<longrightarrow>
        same_path (chmod_target exe_path exe_name) (exe_local_path exe_name))"
proof (intro conjI allI impI)
  fix region src dst
  assume "S3Copy region src dst
            \<in> set (fst (run w repository_path exe_path package_name cmd timeout))"
  from run_copies [OF this]
  show "upper repository_path \<noteq> ''LOCAL''"
    and "\<exists>team exe_name. parse_package_name package_name = Inr (team, exe_name)
            \<and> src = repository_path @ package_name
            \<and> dst = ''/root/one_docker/package/'' @ exe_name"
    unfolding DEFAULT_EXE_FOLDER_def by (rule conjunct1, rule conjunct2)
next
  assume "upper repository_path \<noteq> ''LOCAL'' \<and> launches w repository_path package_name"
  then have u: "upper repository_path \<noteq> ''LOCAL''"
    and l: "launches w repository_path package_name"
    by (rule conjunct1, rule conjunct2)
  show "\<exists>region team exe_name.
           s3_region w repository_path = Inr region
         \<and> parse_package_name package_name = Inr (team, exe_name)
         \<and> (\<exists>rest.
               fst (run w repository_path exe_path package_name cmd timeout)
                 = [Log ''Downloading executables ...'',
                    S3Copy region (repository_path @ package_name) (exe_local_path exe_name),
                    ShellRun (''chmod +x '' @ chmod_target exe_path exe_name)] @ rest)"
    by (rule download_then_chmod [OF u l])
next
  show "exe_local_path exe_name = ''/root/one_docker/package/'' @ exe_name"
    by (simp add: exe_local_path_def DEFAULT_EXE_FOLDER_def)
next
  show "chmod_target exe_path exe_name = exe_path @ ''/'' @ exe_name"
    by (simp add: chmod_target_def)
next
  assume "\<not> same_path exe_path DEFAULT_EXE_FOLDER"
  then show "\<not> same_path (chmod_target exe_path exe_name) (exe_local_path exe_name)"
    by (simp add: same_path_chmod)
next
  assume "same_path exe_path DEFAULT_EXE_FOLDER"
  then show "same_path (chmod_target exe_path exe_name) (exe_local_path exe_name)"
    by (simp add: same_path_chmod)
qed

theorem download_destination_fixed_witness:
  "upper ''https://repo.example.com/'' \<noteq> ''LOCAL''
   \<and> launches calm_world ''https://repo.example.com/'' ''teamA/toolB''
   \<and> (\<exists>rest. fst (run calm_world ''https://repo.example.com/'' ''/opt/bin'' ''teamA/toolB''
                      ''/opt/bin/toolB'' None)
              = [Log ''Downloading executables ...'',
                 S3Copy ''us-west-1'' (''https://repo.example.com/'' @ ''teamA/toolB'')
                   (exe_local_path ''toolB''),
                 ShellRun (''chmod +x '' @ chmod_target ''/opt/bin'' ''toolB'')] @ rest)
   \<and> \<not> same_path ''/opt/bin'' DEFAULT_EXE_FOLDER
   \<and> \<not> same_path (chmod_target ''/opt/bin'' ''toolB'') (exe_local_path ''toolB'')
   \<and> same_path ''/root/one_docker/package/'' DEFAULT_EXE_FOLDER
   \<and> chmod_target ''/root/one_docker/package/'' ''toolB'' = ''/root/one_docker/package//toolB''
   \<and> same_path (chmod_target ''/root/one_docker/package/'' ''toolB'') (exe_local_path ''toolB'')
   \<and> same_path ''/root/one_docker/package'' DEFAULT_EXE_FOLDER
   \<and> same_path (chmod_target ''/root/one_docker/package'' ''toolB'') (exe_local_path ''toolB'')"
proof -
  have p: "parse_package_name ''teamA/toolB'' = Inr (''teamA'', ''toolB'')"
    by (simp add: parse_package_name_def index_def)
  have g: "s3_region calm_world ''https://repo.example.com/'' = Inr ''us-west-1''"
    by (simp add: calm_world_def)
  have n: "\<not> same_path ''/opt/bin'' DEFAULT_EXE_FOLDER"
    by (simp add: same_path_def is_absolute_def path_components_def DEFAULT_EXE_FOLDER_def)
  have y: "same_path ''/root/one_docker/package/'' DEFAULT_EXE_FOLDER"
    by (simp add: same_path_def DEFAULT_EXE_FOLDER_def)
  have z: "same_path ''/root/one_docker/package'' DEFAULT_EXE_FOLDER"
    by (simp add: same_path_def is_absolute_def path_components_def DEFAULT_EXE_FOLDER_def)
  note t = download_destination_fixed
        [where w = calm_world and repository_path = "''https://repo.example.com/''"
           and package_name = "''teamA/toolB''" and exe_path = "''/opt/bin''"
           and cmd = "''/opt/bin/toolB''" and timeout = None and exe_name = "''toolB''"]
  have "\<exists>region team exe_name.
           Inr ''us-west-1'' = (Inr region :: exn + string)
         \<and> (Inr (''teamA'', ''toolB'') :: exn + string \<times> string) = Inr (team, exe_name)
         \<and> (\<exists>rest.
               fst (run calm_world ''https://repo.example.com/'' ''/opt/bin'' ''teamA/toolB''
                      ''/opt/bin/toolB'' None)
                 = [Log ''Downloading executables ...'',
                    S3Copy region (''https://repo.example.com/'' @ ''teamA/toolB'')
                      (exe_local_path exe_name),
                    ShellRun (''chmod +x '' @ chmod_target ''/opt/bin'' exe_name)] @ rest)"
    using t [THEN conjunct2, THEN conjunct1, THEN mp,
        OF conjI [OF upper_remote launches_calm_remote]]
    unfolding p g .
  then have r: "\<exists>rest.
               fst (run calm_world ''https://repo.example.com/'' ''/opt/bin'' ''teamA/toolB''
                      ''/opt/bin/toolB'' None)
                 = [Log ''Downloading executables ...'',
                    S3Copy ''us-west-1'' (''https://repo.example.com/'' @ ''teamA/toolB'')
                      (exe_local_path ''toolB''),
                    ShellRun (''chmod +x '' @ chmod_target ''/opt/bin'' ''toolB'')] @ rest"
    by (simp only: sum.inject prod.inject simp_thms ex_simps) (metis (full_types))
  have d: "\<not> same_path (chmod_target ''/opt/bin'' ''toolB'') (exe_local_path ''toolB'')"
    by (rule t [THEN conjunct2, THEN conjunct2, THEN conjunct2, THEN conjunct2,
          THEN conjunct1, THEN mp, OF n])
  have s1: "same_path (chmod_target ''/root/one_docker/package/'' ''toolB'')
              (exe_local_path ''toolB'')"
    by (rule download_destination_fixed
          [where exe_path = "''/root/one_docker/package/''" and exe_name = "''toolB''",
           THEN conjunct2, THEN conjunct2, THEN conjunct2, THEN conjunct2, THEN conjunct2,
           THEN mp, OF y])
  have s2: "same_path (chmod_target ''/root/one_docker/package'' ''toolB'')
              (exe_local_path ''toolB'')"
    by (rule download_destination_fixed
          [where exe_path = "''/root/one_docker/package''" and exe_name = "''toolB''",
           THEN conjunct2, THEN conjunct2, THEN conjunct2, THEN conjunct2, THEN conjunct2,
           THEN mp, OF z])
  have c: "chmod_target ''/root/one_docker/package/'' ''toolB''
             = ''/root/one_docker/package//toolB''"
    by (simp add: chmod_target_def)
  from upper_remote launches_calm_remote r n d y c s1 z s2 show ?thesis
    by (intro conjI)
qed

text \<open>
  C10. The branch of \<open>run\<close> for a return code other than 0 is the same for every such
  code, negative ones included: the events before it do not depend on the code, the code
  is logged as Python prints it, and it is given to \<open>sys.exit\<close> unchanged.
\<close>

theorem run_exits_with_negative_code:
  assumes "launches w repository_path package_name" and "wait_ends w = ChildExits"
  shows "\<exists>pre. \<forall>c. c \<noteq> 0 \<longrightarrow>
           run (w\<lparr>child_returncode := c\<rparr>) repository_path exe_path package_name cmd timeout
             = (pre @ [Log (''Subprocess returned non-zero return code: '' @ str_int c),
                       PopenExit],
                SysExit c)
         \<and> (c < 0 \<longrightarrow> str_int c = CHR ''-'' # str_nat (nat (- c)))"
proof -
  from assms(1) obtain team exe_name
    where p: "parse_package_name package_name = Inr (team, exe_name)"
    using launches_parses by blast
  have l: "launches (w\<lparr>child_returncode := c\<rparr>) repository_path package_name" for c
    using assms(1) by (simp add: launches_def)
  have e: "wait_ends (w\<lparr>child_returncode := c\<rparr>) = ChildExits" for c
    using assms(2) by simp
  let ?pre =
    "(if upper repository_path \<noteq> ''LOCAL''
      then Log ''Downloading executables ...''
             # fst (download_executables w repository_path package_name)
      else [Log ''Local repository, skip download ...''])
     @ [ShellRun (''chmod +x '' @ chmod_target exe_path exe_name),
        Log (''Running cmd: '' @ effective_cmd repository_path exe_path cmd @ '' ...''),
        SignalInstallSIGINT,
        Popen (effective_cmd repository_path exe_path cmd), NetIoCounters, Communicate timeout,
        ProcWait, NetIoCounters, Log (net_usage_line (net_start w) (net_end w))]"
  have "run (w\<lparr>child_returncode := c\<rparr>) repository_path exe_path package_name cmd timeout
             = (?pre @ [Log (''Subprocess returned non-zero return code: '' @ str_int c),
                        PopenExit],
                SysExit c)" if "c \<noteq> 0" for c
    using that by (simp add: run_launched [OF l p] popen_block_exits [OF e])
  then show ?thesis
    by (intro exI [of _ ?pre]) (simp add: str_int_def)
qed

theorem run_exits_with_negative_code_witness:
  "launches calm_world ''LOCAL'' ''team/myprog'' \<and> wait_ends calm_world = ChildExits
   \<and> (\<exists>pre. run (calm_world\<lparr>child_returncode := - 15\<rparr>) ''LOCAL'' ''/opt/bin/'' ''team/myprog''
               ''myprog'' None
             = (pre @ [Log ''Subprocess returned non-zero return code: -15'', PopenExit],
                SysExit (- 15)))"
proof -
  have w: "wait_ends calm_world = ChildExits" by (simp add: calm_world_def)
  have s: "str_int (- 15) = ''-15''" by code_simp
  obtain pre where
    "\<forall>c. c \<noteq> 0 \<longrightarrow>
       run (calm_world\<lparr>child_returncode := c\<rparr>) ''LOCAL'' ''/opt/bin/'' ''team/myprog''
         ''myprog'' None
         = (pre @ [Log (''Subprocess returned non-zero return code: '' @ str_int c), PopenExit],
            SysExit c)
       \<and> (c < 0 \<longrightarrow> str_int c = CHR ''-'' # str_nat (nat (- c)))"
    using run_exits_with_negative_code [OF launches_calm_local w, of "''/opt/bin/''"
        "''myprog''" None]
    by blast
  then have "run (calm_world\<lparr>child_returncode := - 15\<rparr>) ''LOCAL'' ''/opt/bin/''
               ''team/myprog'' ''myprog'' None
         = (pre @ [Log (''Subprocess returned non-zero return code: '' @ str_int (- 15)),
                   PopenExit],
            SysExit (- 15))"
    by simp
  then show ?thesis
    using launches_calm_local w by (simp add: s)
qed

end
